theory Spec2Isabelle
  imports Main
begin

section \<open>Data model: the tables of app/db/schema.ts\<close>

text \<open>
  Every table of the schema that the authentication code touches is a list of rows, in
  insertion order; a row is a record with one field per column. Identifiers and text
  columns are strings. A timestamp column is declared \<open>integer(..., {mode: 'timestamp'})\<close>:
  it holds an integer, the whole seconds since the epoch. The tables \<open>permission\<close>,
  \<open>permission_role\<close> and \<open>verification\<close> have no foreign key to \<open>user\<close> and are
  used by none of the functions below; they are not part of the state.
\<close>

record user =
  user_id :: string
  user_email :: string
  user_username :: string
  user_name :: "string option"
  user_createdAt :: int
  user_updatedAt :: int

record password =
  password_hash :: string
  password_userId :: string

record session =
  session_id :: string
  session_expirationDate :: int
  session_createdAt :: int
  session_updatedAt :: int
  session_userId :: string

record role =
  role_id :: string
  role_name :: string
  role_description :: string
  role_createdAt :: int
  role_updatedAt :: int

record role_user =
  role_user_roleId :: string
  role_user_userId :: string

record connection =
  connection_id :: string
  connection_providerName :: string
  connection_providerId :: string
  connection_createdAt :: int
  connection_updatedAt :: int
  connection_userId :: string

record user_image =
  user_image_id :: string
  user_image_altText :: "string option"
  user_image_contentType :: string
  user_image_blob :: string
  user_image_createdAt :: int
  user_image_updatedAt :: int
  user_image_userId :: string

record note_row =
  note_id :: string
  note_title :: string
  note_content :: string
  note_createdAt :: int
  note_updatedAt :: int
  note_ownerId :: string

record note_image =
  note_image_id :: string
  note_image_altText :: "string option"
  note_image_contentType :: string
  note_image_blob :: string
  note_image_createdAt :: int
  note_image_updatedAt :: int
  note_image_noteId :: string

text \<open>
  The relations that the schema declares for the relational queries (\<open>db.query\<close>): the
  table a relation is declared on, its field, whether it is \<open>one(...)\<close> or \<open>many(...)\<close>,
  the table it refers to and, for a \<open>one\<close> with a configuration, the \<open>fields\<close> and
  \<open>references\<close> columns. None of the declarations carries a relation name.
\<close>

datatype relation_kind = One | Many

record relation =
  rel_source :: string
  rel_fieldName :: string
  rel_kind :: relation_kind
  rel_referenced :: string
  rel_config :: "(string list \<times> string list) option"

text \<open>
  The handle \<open>db = drizzle(connection, {schema})\<close>: the relations of the schema it was
  built with, and the rows of the tables.
\<close>

record db =
  relations :: "relation list"
  users :: "user list"
  passwords :: "password list"
  sessions :: "session list"
  roles :: "role list"
  rolesToUsers :: "role_user list"
  connections :: "connection list"
  userImages :: "user_image list"
  noteRows :: "note_row list"
  noteImages :: "note_image list"

section \<open>Responses, thrown values and the collaborators outside the repository's core\<close>

type_synonym headers = "(string \<times> string) list"

text \<open>
  \<open>Redirect\<close> is the response of \<open>redirect(url, init)\<close>: target, status and headers;
  \<open>Json\<close> is \<open>json(body, {status})\<close> with
  the form errors of the body; \<open>RedirectWithToast\<close> is the call
  \<open>redirectWithToast(url, {title, type, description}, {headers})\<close>.
\<close>

datatype response =
    Redirect string nat headers
  | Json "string list" nat
  | RedirectWithToast string string string string headers

text \<open>
  What a JavaScript \<open>throw\<close> can carry here: a plain \<open>Error\<close> of the query builder
  (with its message), the \<open>Error\<close> of a failed \<open>invariant\<close>, a constraint violation
  raised by the storage layer, a failure of the storage layer itself, the failure of the
  avatar download, or a \<open>Response\<close>.
\<close>

datatype thrown =
    Error string
  | InvariantError string
  | ConstraintError string
  | StorageError
  | DownloadError string
  | ThrownResponse response

type_synonym cookie_session = "(string \<times> string) list"

text \<open>Of a \<open>Request\<close> the functions read the \<open>cookie\<close> header and the URL.\<close>

record request =
  request_cookie :: "string option"
  request_url :: string

text \<open>
  The collaborators that the functions call and that are not part of the sources at hand
  are parameters of the model: the clock, in milliseconds (\<open>now\<close> is the instant that the
  body of the function reads with \<open>Date.now()\<close> or \<open>new Date()\<close>; \<open>default_Date c\<close> is
  the instant that the default \<open>() => new Date()\<close> of the timestamp column \<open>c\<close> reads for
  the row the call inserts, each a clock read of its own),
  \<open>String.prototype.toLowerCase\<close>, the identifier generator of the primary-key columns
  (\<open>createId t\<close> is the value \<open>createId()\<close> yields for the row that the call inserts
  into table \<open>t\<close>; no function below inserts two rows into one table),
  \<open>bcrypt\<close> (\<open>bcrypt_hash\<close> is \<open>bcrypt.hash(_, 10)\<close> with the salt it draws),
  \<open>downloadFile\<close> (content type and blob, or what it throws), the cookie session
  storages (\<open>getSession\<close> parses the cookie header into the key/value pairs of the
  session, \<open>destroySession\<close> yields the \<open>set-cookie\<close> header that removes the cookie),
  \<open>safeRedirect\<close>, \<open>combineHeaders\<close>, \<open>requireRecentVerification\<close> (\<open>None\<close> when the
  guard lets the request through, otherwise what it throws) and the constant
  \<open>newEmailAddressSessionKey\<close>.
\<close>

record ext =
  now :: int
  default_Date :: "string \<Rightarrow> int"
  toLowerCase :: "string \<Rightarrow> string"
  createId :: "string \<Rightarrow> string"
  bcrypt_hash :: "string \<Rightarrow> string"
  bcrypt_compare :: "string \<Rightarrow> string \<Rightarrow> bool"
  downloadFile :: "string \<Rightarrow> thrown + (string \<times> string)"
  getSession :: "string option \<Rightarrow> cookie_session"
  destroySession :: "cookie_session \<Rightarrow> string"
  safeRedirect :: "string \<Rightarrow> string"
  combineHeaders :: "headers option list \<Rightarrow> headers"
  requireRecentVerification :: "request \<Rightarrow> thrown option"
  verify_getSession :: "string option \<Rightarrow> cookie_session"
  verify_destroySession :: "cookie_session \<Rightarrow> string"
  newEmailAddressSessionKey :: string

section \<open>Storage primitives\<close>

text \<open>
  \<open>db.transaction(async (tx) => ...)\<close>: the callback works on the transaction's view of
  the store; when it throws, the store is left as it was and the thrown value
  propagates, otherwise its writes are committed and its value returned.
\<close>

definition transaction :: "(db \<Rightarrow> thrown + ('a \<times> db)) \<Rightarrow> db \<Rightarrow> (thrown + 'a) \<times> db" where
  "transaction f d =
     (case f d of
        Inl e \<Rightarrow> (Inl e, d)
      | Inr (r, d') \<Rightarrow> (Inr r, d'))"

text \<open>\<open>invariant(value, message)\<close> on a value that may be undefined.\<close>

definition invariant :: "'a option \<Rightarrow> string \<Rightarrow> thrown + 'a" where
  "invariant v msg = (case v of None \<Rightarrow> Inl (InvariantError msg) | Some x \<Rightarrow> Inr x)"

text \<open>\<open>const [row] = await ...returning(...)\<close>: the first returned row, or undefined.\<close>

definition first_row :: "'a list \<Rightarrow> 'a option" where
  "first_row rs = (case rs of [] \<Rightarrow> None | r # _ \<Rightarrow> Some r)"

text \<open>
  A timestamp column maps a \<open>Date\<close> to the integer it stores with
  \<open>Math.floor(value.getTime() / 1000)\<close> and maps the integer read from a row back with
  \<open>new Date(value * 1000)\<close>.
\<close>

definition column_of_date :: "int \<Rightarrow> int" where
  "column_of_date ms = ms div 1000"

definition date_of_column :: "int \<Rightarrow> int" where
  "date_of_column sec = sec * 1000"

text \<open>
  An insert checks the primary key and the unique indexes of its table. The foreign keys
  of an inserted row are not checked: the functions below only insert references to rows
  that the same transaction has just inserted or found.
\<close>

text \<open>
  \<open>insert(users).values(...).returning(...)\<close>. The table has a primary key on \<open>id\<close> and
  unique indexes on \<open>email\<close> and \<open>username\<close>; an insert that breaks one of them throws.
  The \<open>id\<close>, \<open>createdAt\<close> and \<open>updatedAt\<close> columns take their defaults.
\<close>

definition insert_users :: "ext \<Rightarrow> string \<Rightarrow> string \<Rightarrow> string option \<Rightarrow> db
    \<Rightarrow> thrown + (user list \<times> db)" where
  "insert_users e em un nm d =
     (let u = \<lparr>user_id = createId e ''user'', user_email = em, user_username = un, user_name = nm,
               user_createdAt = column_of_date (default_Date e ''user.created_at''),
               user_updatedAt = column_of_date (default_Date e ''user.updated_at'')\<rparr>
      in if user_id u \<in> set (map user_id (users d)) then Inl (ConstraintError ''user.id'')
         else if em \<in> set (map user_email (users d)) then Inl (ConstraintError ''user.email'')
         else if un \<in> set (map user_username (users d))
           then Inl (ConstraintError ''user.username'')
         else Inr ([u], d\<lparr>users := users d @ [u]\<rparr>))"

text \<open>\<open>insert(passwords).values({hash, userId})\<close>: the table has no key and no index.\<close>

definition insert_passwords :: "string \<Rightarrow> string \<Rightarrow> db \<Rightarrow> thrown + db" where
  "insert_passwords h uid d =
     Inr (d\<lparr>passwords := passwords d @ [\<lparr>password_hash = h, password_userId = uid\<rparr>]\<rparr>)"

text \<open>\<open>insert(rolesToUsers).values({userId, roleId})\<close>: no key and no index either.\<close>

definition insert_rolesToUsers :: "string \<Rightarrow> string \<Rightarrow> db \<Rightarrow> thrown + db" where
  "insert_rolesToUsers uid rid d =
     Inr (d\<lparr>rolesToUsers := rolesToUsers d @ [\<lparr>role_user_roleId = rid, role_user_userId = uid\<rparr>]\<rparr>)"

text \<open>
  \<open>insert(sessions).values({expirationDate, userId}).returning(...)\<close>, with the
  expiration \<open>Date\<close> given. The row returned is the row stored.
\<close>

definition insert_sessions :: "ext \<Rightarrow> int \<Rightarrow> string \<Rightarrow> db \<Rightarrow> thrown + (session list \<times> db)" where
  "insert_sessions e ex uid d =
     (let s = \<lparr>session_id = createId e ''session'',
               session_expirationDate = column_of_date ex,
               session_createdAt = column_of_date (default_Date e ''session.created_at''),
               session_updatedAt = column_of_date (default_Date e ''session.updated_at''),
               session_userId = uid\<rparr>
      in if session_id s \<in> set (map session_id (sessions d))
           then Inl (ConstraintError ''session.id'')
         else Inr ([s], d\<lparr>sessions := sessions d @ [s]\<rparr>))"

text \<open>
  \<open>insert(connections).values({userId, providerId, providerName})\<close>, with the primary key
  and the unique index on (provider name, provider id).
\<close>

definition insert_connections :: "ext \<Rightarrow> string \<Rightarrow> string \<Rightarrow> string \<Rightarrow> db \<Rightarrow> thrown + db" where
  "insert_connections e uid pid pname d =
     (let c = \<lparr>connection_id = createId e ''connection'', connection_providerName = pname,
               connection_providerId = pid,
               connection_createdAt = column_of_date (default_Date e ''connection.created_at''),
               connection_updatedAt = column_of_date (default_Date e ''connection.updated_at''),
               connection_userId = uid\<rparr>
      in if connection_id c \<in> set (map connection_id (connections d))
           then Inl (ConstraintError ''connection.id'')
         else if (pname, pid) \<in>
             set (map (\<lambda>x. (connection_providerName x, connection_providerId x)) (connections d))
           then Inl (ConstraintError ''connection_provider_name_prodiver_id_unique'')
         else Inr (d\<lparr>connections := connections d @ [c]\<rparr>))"

text \<open>\<open>insert(userImages).values({contentType, blob, userId})\<close>.\<close>

definition insert_userImages :: "ext \<Rightarrow> string \<times> string \<Rightarrow> string \<Rightarrow> db \<Rightarrow> thrown + db" where
  "insert_userImages e file uid d =
     (let i = \<lparr>user_image_id = createId e ''user_image'', user_image_altText = None,
               user_image_contentType = fst file, user_image_blob = snd file,
               user_image_createdAt = column_of_date (default_Date e ''user_image.created_at''),
               user_image_updatedAt = column_of_date (default_Date e ''user_image.updated_at''),
               user_image_userId = uid\<rparr>
      in if user_image_id i \<in> set (map user_image_id (userImages d))
           then Inl (ConstraintError ''user_image.id'')
         else Inr (d\<lparr>userImages := userImages d @ [i]\<rparr>))"

section \<open>app/utils/auth.server.ts\<close>

definition SESSION_EXPIRATION_TIME :: int where
  "SESSION_EXPIRATION_TIME = 1000 * 60 * 60 * 24 * 30"

definition getSessionExpirationDate :: "ext \<Rightarrow> int" where
  "getSessionExpirationDate e = now e + SESSION_EXPIRATION_TIME"

definition sessionKey :: string where
  "sessionKey = ''sessionId''"

definition getPasswordHash :: "ext \<Rightarrow> string \<Rightarrow> string" where
  "getPasswordHash e pw = bcrypt_hash e pw"

subsection \<open>resetUserPassword\<close>

text \<open>
  \<open>tx.update(passwords).set({hash: hashedPassword, userId: user.id})\<close>: the statement
  carries no \<open>where\<close>, so it assigns both columns in every row of the table.
\<close>

definition update_passwords_set :: "string \<Rightarrow> string \<Rightarrow> db \<Rightarrow> db" where
  "update_passwords_set h uid d =
     d\<lparr>passwords := map (\<lambda>p. p\<lparr>password_hash := h, password_userId := uid\<rparr>) (passwords d)\<rparr>"

definition resetUserPassword_tx :: "string \<Rightarrow> string \<Rightarrow> db \<Rightarrow> thrown + (user \<times> db)" where
  "resetUserPassword_tx un hashedPassword tx =
     (case invariant (find (\<lambda>u. user_username u = un) (users tx)) ''User not found'' of
        Inl err \<Rightarrow> Inl err
      | Inr u \<Rightarrow> Inr (u, update_passwords_set hashedPassword (user_id u) tx))"

definition resetUserPassword :: "ext \<Rightarrow> string \<Rightarrow> string \<Rightarrow> db \<Rightarrow> (thrown + user) \<times> db" where
  "resetUserPassword e un pw d =
     (let hashedPassword = getPasswordHash e pw
      in transaction (resetUserPassword_tx un hashedPassword) d)"

subsection \<open>signup\<close>

definition signup_tx :: "ext \<Rightarrow> string \<Rightarrow> string \<Rightarrow> string option \<Rightarrow> string \<Rightarrow> db
    \<Rightarrow> thrown + (session \<times> db)" where
  "signup_tx e em un nm hashedPassword tx =
     (case insert_users e (toLowerCase e em) (toLowerCase e un) nm tx of
        Inl err \<Rightarrow> Inl err
      | Inr (urows, tx1) \<Rightarrow>
     (let role = find (\<lambda>r. role_name r = ''user'') (roles tx1) in
     (case invariant role ''Failed to find user role'' of
        Inl err \<Rightarrow> Inl err
      | Inr rl \<Rightarrow>
     (case invariant (first_row urows) ''Failed to create user'' of
        Inl err \<Rightarrow> Inl err
      | Inr u \<Rightarrow>
     (case insert_passwords hashedPassword (user_id u) tx1 of
        Inl err \<Rightarrow> Inl err
      | Inr tx2 \<Rightarrow>
     (case insert_rolesToUsers (user_id u) (role_id rl) tx2 of
        Inl err \<Rightarrow> Inl err
      | Inr tx3 \<Rightarrow>
     (case insert_sessions e (getSessionExpirationDate e) (user_id u) tx3 of
        Inl err \<Rightarrow> Inl err
      | Inr (srows, tx4) \<Rightarrow>
     (case invariant (first_row srows) ''Failed to create session'' of
        Inl err \<Rightarrow> Inl err
      | Inr s \<Rightarrow> Inr (s, tx4)))))))))"

definition signup :: "ext \<Rightarrow> string \<Rightarrow> string \<Rightarrow> string option \<Rightarrow> string \<Rightarrow> db
    \<Rightarrow> (thrown + session) \<times> db" where
  "signup e em un nm pw d =
     (let hashedPassword = getPasswordHash e pw
      in transaction (signup_tx e em un nm hashedPassword) d)"

subsection \<open>signupWithConnection\<close>

text \<open>The test \<open>if (v)\<close> on an optional string: undefined and the empty string are falsy.\<close>

definition truthy :: "string option \<Rightarrow> bool" where
  "truthy v = (case v of None \<Rightarrow> False | Some s \<Rightarrow> s \<noteq> [])"

text \<open>
  The optional avatar step: \<open>downloadFile(imageUrl)\<close> is awaited inside the transaction
  callback, with no handler around it, and its result is spread into the inserted row.
\<close>

definition store_avatar :: "ext \<Rightarrow> string option \<Rightarrow> string \<Rightarrow> db \<Rightarrow> thrown + db" where
  "store_avatar e imageUrl uid tx =
     (if truthy imageUrl then
        (case downloadFile e (the imageUrl) of
           Inl err \<Rightarrow> Inl err
         | Inr file \<Rightarrow> insert_userImages e file uid tx)
      else Inr tx)"

definition signupWithConnection_tx :: "ext \<Rightarrow> string \<Rightarrow> string \<Rightarrow> string option \<Rightarrow> string
    \<Rightarrow> string \<Rightarrow> string option \<Rightarrow> db \<Rightarrow> thrown + (session \<times> db)" where
  "signupWithConnection_tx e em un nm providerId providerName imageUrl tx =
     (case insert_users e (toLowerCase e em) (toLowerCase e un) nm tx of
        Inl err \<Rightarrow> Inl err
      | Inr (urows, tx1) \<Rightarrow>
     (let role = find (\<lambda>r. role_name r = ''user'') (roles tx1) in
     (case invariant (first_row urows) ''Failed to create user'' of
        Inl err \<Rightarrow> Inl err
      | Inr u \<Rightarrow>
     (case invariant role ''Failed to find user role'' of
        Inl err \<Rightarrow> Inl err
      | Inr rl \<Rightarrow>
     (case insert_rolesToUsers (user_id u) (role_id rl) tx1 of
        Inl err \<Rightarrow> Inl err
      | Inr tx2 \<Rightarrow>
     (case insert_connections e (user_id u) providerId providerName tx2 of
        Inl err \<Rightarrow> Inl err
      | Inr tx3 \<Rightarrow>
     (case store_avatar e imageUrl (user_id u) tx3 of
        Inl err \<Rightarrow> Inl err
      | Inr tx4 \<Rightarrow>
     (case insert_sessions e (getSessionExpirationDate e) (user_id u) tx4 of
        Inl err \<Rightarrow> Inl err
      | Inr (srows, tx5) \<Rightarrow>
     (case invariant (first_row srows) ''Failed to create session'' of
        Inl err \<Rightarrow> Inl err
      | Inr s \<Rightarrow> Inr (s, tx5))))))))))"

definition signupWithConnection :: "ext \<Rightarrow> string \<Rightarrow> string \<Rightarrow> string option \<Rightarrow> string
    \<Rightarrow> string \<Rightarrow> string option \<Rightarrow> db \<Rightarrow> (thrown + session) \<times> db" where
  "signupWithConnection e em un nm providerId providerName imageUrl d =
     transaction (signupWithConnection_tx e em un nm providerId providerName imageUrl) d"

subsection \<open>Relational queries\<close>

text \<open>
  The relations of \<open>app/db/schema.ts\<close>, in the order of the file. Every one of them is
  declared with the target table alone: no \<open>one(...)\<close> gives \<open>fields\<close> and \<open>references\<close>.
\<close>

definition bare :: "string \<Rightarrow> string \<Rightarrow> relation_kind \<Rightarrow> string \<Rightarrow> relation" where
  "bare t f k r =
     \<lparr>rel_source = t, rel_fieldName = f, rel_kind = k, rel_referenced = r, rel_config = None\<rparr>"

definition schema_relations :: "relation list" where
  "schema_relations =
     [bare ''users'' ''image'' One ''userImages'',
      bare ''users'' ''password'' One ''passwords'',
      bare ''users'' ''notes'' Many ''notes'',
      bare ''users'' ''roles'' Many ''roles'',
      bare ''users'' ''sessions'' Many ''sessions'',
      bare ''users'' ''connections'' Many ''connections'',
      bare ''notes'' ''owner'' One ''users'',
      bare ''notes'' ''images'' Many ''noteImages'',
      bare ''noteImages'' ''note'' One ''notes'',
      bare ''userImages'' ''user'' One ''users'',
      bare ''passwords'' ''user'' One ''users'',
      bare ''sessions'' ''user'' One ''users'',
      bare ''permissions'' ''roles'' Many ''roles'',
      bare ''roles'' ''users'' Many ''users'',
      bare ''roles'' ''permissions'' Many ''permissions'',
      bare ''connections'' ''user'' One ''users'',
      bare ''permissionsToRoles'' ''permission'' One ''permissions'',
      bare ''permissionsToRoles'' ''role'' One ''roles'',
      bare ''rolesToUsers'' ''role'' One ''roles'',
      bare ''rolesToUsers'' ''user'' One ''users'']"

definition dquote :: string where
  "dquote = [CHR 0x22]"

text \<open>
  How the query builder finds the columns that join a relation selected under \<open>with\<close>
  (\<open>normalizeRelation\<close> of the query library, for relations without a name). A \<open>one\<close>
  with a configuration joins its \<open>fields\<close> to its \<open>references\<close>. Otherwise the relations
  that the target table declares back to the source table are collected: more than one
  is an error; a single \<open>one\<close> with a configuration is used the other way round; in every
  other case the builder throws a plain \<open>Error\<close>.
\<close>

definition normalizeRelation :: "relation list \<Rightarrow> relation \<Rightarrow> thrown + (string list \<times> string list)" where
  "normalizeRelation schema r =
     (if rel_kind r = One \<and> rel_config r \<noteq> None then Inr (the (rel_config r))
      else
        (let reverseRelations =
               filter (\<lambda>x. rel_source x = rel_referenced r \<and> rel_referenced x = rel_source r) schema
         in if 1 < length reverseRelations then
              Inl (Error (''There are multiple relations between '' @ dquote @ rel_referenced r
                     @ dquote @ '' and '' @ dquote @ rel_source r @ dquote
                     @ ''. Please specify relation name''))
            else
              (case first_row reverseRelations of
                 Some x \<Rightarrow>
                   if rel_kind x = One \<and> rel_config x \<noteq> None
                   then Inr (snd (the (rel_config x)), fst (the (rel_config x)))
                   else Inl (Error (''There is not enough information to infer relation ''
                               @ dquote @ rel_source r @ ''.'' @ rel_fieldName r @ dquote))
               | None \<Rightarrow>
                   Inl (Error (''There is not enough information to infer relation ''
                          @ dquote @ rel_source r @ ''.'' @ rel_fieldName r @ dquote)))))"

text \<open>
  The relation \<open>f\<close> of table \<open>t\<close> selected under \<open>with\<close>: the declaration is looked up in
  the schema of the handle and normalised while the query is built, before any row is
  read. A field that the schema does not declare makes the builder fail on an undefined
  value.
\<close>

definition with_relation :: "db \<Rightarrow> string \<Rightarrow> string \<Rightarrow> thrown + (string list \<times> string list)" where
  "with_relation d t f =
     (case find (\<lambda>r. rel_source r = t \<and> rel_fieldName r = f) (relations d) of
        None \<Rightarrow> Inl (Error ''Cannot read properties of undefined'')
      | Some r \<Rightarrow> normalizeRelation (relations d) r)"

text \<open>
  The value of a named column in a row, for the three tables that the relational queries
  below join, and the join condition: \<open>fields[i] = references[i]\<close> for every \<open>i\<close>, as SQL
  compares (a null equals nothing).
\<close>

datatype column_value = Text string | Integer int | Null

definition users_column :: "string \<Rightarrow> user \<Rightarrow> column_value" where
  "users_column c u =
     (if c = ''id'' then Text (user_id u)
      else if c = ''email'' then Text (user_email u)
      else if c = ''username'' then Text (user_username u)
      else if c = ''name'' then (case user_name u of None \<Rightarrow> Null | Some n \<Rightarrow> Text n)
      else if c = ''createdAt'' then Integer (user_createdAt u)
      else if c = ''updatedAt'' then Integer (user_updatedAt u)
      else Null)"

definition passwords_column :: "string \<Rightarrow> password \<Rightarrow> column_value" where
  "passwords_column c p =
     (if c = ''hash'' then Text (password_hash p)
      else if c = ''userId'' then Text (password_userId p)
      else Null)"

definition sessions_column :: "string \<Rightarrow> session \<Rightarrow> column_value" where
  "sessions_column c s =
     (if c = ''id'' then Text (session_id s)
      else if c = ''expirationDate'' then Integer (session_expirationDate s)
      else if c = ''createdAt'' then Integer (session_createdAt s)
      else if c = ''updatedAt'' then Integer (session_updatedAt s)
      else if c = ''userId'' then Text (session_userId s)
      else Null)"

definition sql_eq :: "column_value \<Rightarrow> column_value \<Rightarrow> bool" where
  "sql_eq a b = (a \<noteq> Null \<and> b \<noteq> Null \<and> a = b)"

definition join_on :: "column_value list \<Rightarrow> column_value list \<Rightarrow> bool" where
  "join_on fs rs = list_all2 sql_eq fs rs"

subsection \<open>verifyUserPassword\<close>

text \<open>
  \<open>db.query.users.findFirst({where, columns: {id}, with: {password: {columns: {hash}}}})\<close>.
  The \<open>where\<close> argument is a condition on the user row or undefined (then the first row
  is taken); \<open>password\<close> is the first row of the password table that the relation
  \<open>users.password\<close> joins to the user found, or null. The relation is normalised when
  the query is built, so what that throws comes out of \<open>verifyUserPassword\<close>.
\<close>

definition findFirst_users :: "(user \<Rightarrow> bool) option \<Rightarrow> db \<Rightarrow> user option" where
  "findFirst_users w d = (case w of None \<Rightarrow> first_row (users d) | Some P \<Rightarrow> find P (users d))"

definition password_of :: "string list \<times> string list \<Rightarrow> db \<Rightarrow> user \<Rightarrow> password option" where
  "password_of rel d u =
     find (\<lambda>p. join_on (map (\<lambda>c. users_column c u) (fst rel))
                        (map (\<lambda>c. passwords_column c p) (snd rel)))
       (passwords d)"

definition verifyUserPassword :: "ext \<Rightarrow> (user \<Rightarrow> bool) option \<Rightarrow> string \<Rightarrow> db
    \<Rightarrow> thrown + string option" where
  "verifyUserPassword e w pw d =
     (case with_relation d ''users'' ''password'' of
        Inl err \<Rightarrow> Inl err
      | Inr rel \<Rightarrow>
          (case findFirst_users w d of
             None \<Rightarrow> Inr None
           | Some u \<Rightarrow>
               (case password_of rel d u of
                  None \<Rightarrow> Inr None
                | Some p \<Rightarrow>
                    if bcrypt_compare e pw (password_hash p) then Inr (Some (user_id u))
                    else Inr None)))"

subsection \<open>getUserId\<close>

text \<open>\<open>redirect(url, init)\<close>: the status is 302 unless \<open>init\<close> gives one.\<close>

definition redirect :: "string \<Rightarrow> nat option \<Rightarrow> headers \<Rightarrow> response" where
  "redirect url st hs = Redirect url (case st of None \<Rightarrow> 302 | Some n \<Rightarrow> n) hs"

text \<open>
  \<open>db.query.sessions.findFirst({with: {user: {columns: {id}}}, where: and(eq(id,
  sessionId), gt(expirationDate, new Date()))})\<close>, then \<open>session?.user\<close>. The relation
  \<open>sessions.user\<close> is normalised when the query is built. The comparison is made on what
  the column holds: the stored seconds against the seconds of the current instant. The
  user is the first row of the user table that the relation joins to the session found.
\<close>

definition live_session_user :: "ext \<Rightarrow> string \<Rightarrow> db \<Rightarrow> thrown + user option" where
  "live_session_user e sessionId d =
     (case with_relation d ''sessions'' ''user'' of
        Inl err \<Rightarrow> Inl err
      | Inr rel \<Rightarrow>
          (case find (\<lambda>s. session_id s = sessionId \<and>
                           column_of_date (now e) < session_expirationDate s) (sessions d) of
             None \<Rightarrow> Inr None
           | Some s \<Rightarrow>
               Inr (find (\<lambda>u. join_on (map (\<lambda>c. sessions_column c s) (fst rel))
                                        (map (\<lambda>c. users_column c u) (snd rel)))
                      (users d))))"

text \<open>
  The function only reads the store; the store is returned with the result so that what
  the call leaves in it can be stated.
\<close>

definition getUserId :: "ext \<Rightarrow> request \<Rightarrow> db \<Rightarrow> (thrown + string option) \<times> db" where
  "getUserId e request d =
     (let authSession = getSession e (request_cookie request);
          sessionId = map_of authSession sessionKey
      in if \<not> truthy sessionId then (Inr None, d)
         else
           (case live_session_user e (the sessionId) d of
              Inl err \<Rightarrow> (Inl err, d)
            | Inr None \<Rightarrow>
                (Inl (ThrownResponse
                   (redirect ''/'' None [(''set-cookie'', destroySession e authSession)])), d)
            | Inr (Some u) \<Rightarrow> (Inr (Some (user_id u)), d)))"

subsection \<open>logout\<close>

text \<open>
  \<open>db.delete(sessions).where(eq(sessions.id, sessionId))\<close>. The flag says whether the
  storage layer fails on the statement (then the promise rejects and no row is removed).
\<close>

definition delete_sessions_by_id :: "bool \<Rightarrow> string \<Rightarrow> db \<Rightarrow> thrown + db" where
  "delete_sessions_by_id fails sessionId d =
     (if fails then Inl StorageError
      else Inr (d\<lparr>sessions := filter (\<lambda>s. session_id s \<noteq> sessionId) (sessions d)\<rparr>))"

record response_init =
  init_status :: "nat option"
  init_headers :: "headers option"

text \<open>
  \<open>logout\<close> never returns: its outcome is the value it throws. The rejection of the delete
  is taken by \<open>.catch(() => {})\<close>.
\<close>

definition logout :: "ext \<Rightarrow> bool \<Rightarrow> request \<Rightarrow> string option \<Rightarrow> response_init option \<Rightarrow> db
    \<Rightarrow> thrown \<times> db" where
  "logout e fails request redirectTo responseInit d =
     (let target = (case redirectTo of None \<Rightarrow> ''/'' | Some t \<Rightarrow> t);
          authSession = getSession e (request_cookie request);
          sessionId = map_of authSession sessionKey;
          d' = (if truthy sessionId then
                  (case delete_sessions_by_id fails (the sessionId) d of
                     Inl err \<Rightarrow> d
                   | Inr d1 \<Rightarrow> d1)
                else d)
      in (ThrownResponse
            (redirect (safeRedirect e target)
               (case responseInit of None \<Rightarrow> None | Some i \<Rightarrow> init_status i)
               (combineHeaders e
                  [Some [(''set-cookie'', destroySession e authSession)],
                   (case responseInit of None \<Rightarrow> None | Some i \<Rightarrow> init_headers i)])),
          d'))"

section \<open>app/routes/settings+/profile.change-email.server.tsx\<close>

text \<open>
  The submission of the verification form: its status and, under \<open>value\<close>, the target of
  the verification (the id of the user whose address changes).
\<close>

record submission =
  submission_status :: string
  submission_target :: string

text \<open>
  A message handed to \<open>sendEmail\<close>; the body of the change notice is determined by the
  account id it shows. The messages sent so far are part of the state, after the store.
\<close>

record email_msg =
  email_to :: string
  email_subject :: string
  email_noticeUserId :: string

text \<open>
  \<open>db.update(users).set({email}).where(eq(users.id, target)).returning(...)\<close>. The
  unique index on \<open>email\<close> makes the statement throw when a row is matched and another
  row already holds the address; then no row is changed.
\<close>

definition update_users_email :: "string \<Rightarrow> string \<Rightarrow> db \<Rightarrow> thrown + (user list \<times> db)" where
  "update_users_email target newEmail d =
     (if target \<in> set (map user_id (users d)) \<and>
         newEmail \<in> set (map user_email (filter (\<lambda>u. user_id u \<noteq> target) (users d)))
      then Inl (ConstraintError ''user.email'')
      else
        (let us = map (\<lambda>u. if user_id u = target then u\<lparr>user_email := newEmail\<rparr> else u) (users d)
         in Inr (filter (\<lambda>u. user_id u = target) us, d\<lparr>users := us\<rparr>)))"

definition handleVerification :: "ext \<Rightarrow> request \<Rightarrow> submission \<Rightarrow> db \<times> email_msg list
    \<Rightarrow> (thrown + response) \<times> (db \<times> email_msg list)" where
  "handleVerification e request sub w =
     (case requireRecentVerification e request of
        Some t \<Rightarrow> (Inl t, w)
      | None \<Rightarrow>
     (if submission_status sub \<noteq> ''success''
        then (Inl (InvariantError ''Submission should be successful by now''), w)
      else
     (let verifySession = verify_getSession e (request_cookie request);
          newEmail = map_of verifySession (newEmailAddressSessionKey e)
      in if \<not> truthy newEmail then
           (Inr (Json [''You must submit the code on the same device that requested the email change.''] 400), w)
         else
     (case invariant (find (\<lambda>u. user_id u = submission_target sub) (users (fst w)))
             ''User should exist'' of
        Inl err \<Rightarrow> (Inl err, w)
      | Inr preUpdateUser \<Rightarrow>
     (case update_users_email (submission_target sub) (the newEmail) (fst w) of
        Inl err \<Rightarrow> (Inl err, w)
      | Inr (rows, d') \<Rightarrow>
     (case invariant (first_row rows) ''User should exist'' of
        Inl err \<Rightarrow> (Inl err, (d', snd w))
      | Inr u \<Rightarrow>
          (Inr (RedirectWithToast ''/settings/profile'' ''Email Changed'' ''success''
                  (''Your email has been changed to '' @ user_email u)
                  [(''set-cookie'', verify_destroySession e verifySession)]),
           (d', snd w @ [\<lparr>email_to = user_email preUpdateUser,
                           email_subject = ''Epic Stack email changed'',
                           email_noticeUserId = user_id u\<rparr>]))))))))"

section \<open>Deleting a user: the foreign keys of the migration\<close>






section \<open>A concrete store and concrete collaborators\<close>

text \<open>
  Two users with a password each, a session of the first that is live at the second 1000
  and a session of the second that expires at that very second, the role \<open>user\<close>, and one
  row in each table that hangs off a user; the handle is built with the relations of the
  schema. The collaborators: a clock at 1000000 (the second 1000), a lowercasing of the
  ASCII letters, a hash that prefixes the password, a cookie that is the session id
  itself, a download that fails.
\<close>

definition ascii_toLowerCase :: "string \<Rightarrow> string" where
  "ascii_toLowerCase s =
     map (\<lambda>c. let n = (of_char c :: nat) in if 65 \<le> n \<and> n \<le> 90 then char_of (n + 32) else c) s"

definition ex_ext :: ext where
  "ex_ext =
     \<lparr>now = 1000000,
      default_Date = (\<lambda>c. 1000000),
      toLowerCase = ascii_toLowerCase,
      createId = (\<lambda>t. ''new-'' @ t),
      bcrypt_hash = (\<lambda>p. ''$2a$10$'' @ p),
      bcrypt_compare = (\<lambda>p h. h = ''$2a$10$'' @ p),
      downloadFile = (\<lambda>url. Inl (DownloadError url)),
      getSession = (\<lambda>c. case c of None \<Rightarrow> [] | Some v \<Rightarrow> [(''sessionId'', v)]),
      destroySession = (\<lambda>s. ''en_session=; Max-Age=0''),
      safeRedirect = (\<lambda>t. t),
      combineHeaders = (\<lambda>hs. concat (map (\<lambda>h. case h of None \<Rightarrow> [] | Some l \<Rightarrow> l) hs)),
      requireRecentVerification = (\<lambda>r. None),
      verify_getSession = (\<lambda>c. case c of None \<Rightarrow> [] | Some v \<Rightarrow> [(''new-email-address'', v)]),
      verify_destroySession = (\<lambda>s. ''en_verification=; Max-Age=0''),
      newEmailAddressSessionKey = ''new-email-address''\<rparr>"

definition alice :: user where
  "alice = \<lparr>user_id = ''u1'', user_email = ''alice@example.com'', user_username = ''alice'',
            user_name = Some ''Alice'', user_createdAt = 0, user_updatedAt = 0\<rparr>"

definition bob :: user where
  "bob = \<lparr>user_id = ''u2'', user_email = ''bob@example.com'', user_username = ''bob'',
          user_name = None, user_createdAt = 0, user_updatedAt = 0\<rparr>"

definition ex_db :: db where
  "ex_db =
     \<lparr>relations = schema_relations,
      users = [alice, bob],
      passwords = [\<lparr>password_hash = ''$2a$10$alicepw'', password_userId = ''u1''\<rparr>,
                   \<lparr>password_hash = ''$2a$10$bobpw'', password_userId = ''u2''\<rparr>],
      sessions = [\<lparr>session_id = ''s1'', session_expirationDate = 5000, session_createdAt = 0,
                    session_updatedAt = 0, session_userId = ''u1''\<rparr>,
                  \<lparr>session_id = ''s2'', session_expirationDate = 1000, session_createdAt = 0,
                    session_updatedAt = 0, session_userId = ''u2''\<rparr>],
      roles = [\<lparr>role_id = ''r1'', role_name = ''user'', role_description = '''',
                 role_createdAt = 0, role_updatedAt = 0\<rparr>],
      rolesToUsers = [\<lparr>role_user_roleId = ''r1'', role_user_userId = ''u1''\<rparr>,
                      \<lparr>role_user_roleId = ''r1'', role_user_userId = ''u2''\<rparr>],
      connections = [\<lparr>connection_id = ''c1'', connection_providerName = ''github'',
                       connection_providerId = ''42'', connection_createdAt = 0,
                       connection_updatedAt = 0, connection_userId = ''u1''\<rparr>],
      userImages = [\<lparr>user_image_id = ''i1'', user_image_altText = None,
                      user_image_contentType = ''image/png'', user_image_blob = ''png'',
                      user_image_createdAt = 0, user_image_updatedAt = 0,
                      user_image_userId = ''u1''\<rparr>],
      noteRows = [\<lparr>note_id = ''n1'', note_title = ''t'', note_content = ''c'',
                    note_createdAt = 0, note_updatedAt = 0, note_ownerId = ''u1''\<rparr>,
                  \<lparr>note_id = ''n2'', note_title = ''t'', note_content = ''c'',
                    note_createdAt = 0, note_updatedAt = 0, note_ownerId = ''u2''\<rparr>],
      noteImages = [\<lparr>note_image_id = ''ni1'', note_image_altText = None,
                      note_image_contentType = ''image/png'', note_image_blob = ''png'',
                      note_image_createdAt = 0, note_image_updatedAt = 0,
                      note_image_noteId = ''n1''\<rparr>]\<rparr>"


text \<open>A clock whose reads fall on both sides of a second: 1999, then 2000 for the defaults.\<close>

definition ex_ext_late :: ext where
  "ex_ext_late = ex_ext\<lparr>now := 1999, default_Date := (\<lambda>c. 2000)\<rparr>"

lemmas ex_defs = ex_ext_def ex_db_def alice_def bob_def

section \<open>The lowercasing of the concrete collaborators, evaluated\<close>

lemma ascii_lower:
  "ascii_toLowerCase ''A@B.com'' = ''a@b.com''"
  "ascii_toLowerCase ''Alice2'' = ''alice2''"
  "ascii_toLowerCase ''Carol'' = ''carol''"
  "ascii_toLowerCase ''Carol@Example.com'' = ''carol@example.com''"
  by code_simp+

section \<open>Lookups in a table\<close>

lemma find_by_key:
  "distinct (map k xs) \<Longrightarrow> x \<in> set xs \<Longrightarrow>
     find (\<lambda>y. k y = k x \<and> Q y) xs = (if Q x then Some x else None)"
proof (induction xs)
  case Nil
  then show ?case by simp
next
  case (Cons a xs)
  show ?case
  proof (cases "a = x")
    case True
    with Cons.prems have "k x \<notin> k ` set xs" by simp
    then have "find (\<lambda>y. k y = k x \<and> Q y) xs = None"
      by (force simp: find_None_iff image_iff)
    with True show ?thesis by simp
  next
    case False
    with Cons.prems have "x \<in> set xs" "k a \<noteq> k x" by auto
    with Cons show ?thesis by simp
  qed
qed

lemma find_key_exists:
  "v \<in> set (map k xs) \<Longrightarrow> \<exists>x. find (\<lambda>y. k y = v) xs = Some x \<and> k x = v"
  by (induction xs) auto

section \<open>Password reset\<close>

text \<open>
  What a successful reset leaves in the password table: every row, whoever owned it,
  carries the new hash and the id of the user found.
\<close>

lemma resetUserPassword_every_row:
  assumes "resetUserPassword e un pw d = (Inr u, d')"
  shows "\<forall>p \<in> set (passwords d').
           password_hash p = getPasswordHash e pw \<and> password_userId p = user_id u"
  using assms
  by (auto simp: resetUserPassword_def resetUserPassword_tx_def transaction_def invariant_def
      update_passwords_set_def Let_def split: option.splits)

text \<open>
  C1 (the behaviour of the code at a store with two users). Resetting the password of
  \<open>alice\<close> returns her row and leaves the password table with two rows that both carry
  the new hash and both point at her: the row of \<open>bob\<close> is overwritten and reassigned,
  because the update statement has no \<open>where\<close>.
\<close>

theorem resetUserPassword_rewrites_other_rows:
  "resetUserPassword ex_ext ''alice'' ''secret'' ex_db =
     (Inr alice,
      ex_db\<lparr>passwords :=
        [\<lparr>password_hash = ''$2a$10$secret'', password_userId = ''u1''\<rparr>,
         \<lparr>password_hash = ''$2a$10$secret'', password_userId = ''u1''\<rparr>]\<rparr>)"
  by (simp add: resetUserPassword_def resetUserPassword_tx_def transaction_def invariant_def
      update_passwords_set_def getPasswordHash_def Let_def ex_defs)

section \<open>Relations of the schema\<close>

text \<open>
  With the relations as the schema declares them, neither relation that the queries of
  \<open>auth.server.ts\<close> select under \<open>with\<close> can be normalised: \<open>users.password\<close> finds the
  single relation \<open>passwords.user\<close> back, a \<open>one\<close> without configuration, and
  \<open>sessions.user\<close> finds \<open>users.sessions\<close>, a \<open>many\<close>.
\<close>

lemma with_relation_users_password:
  "relations d = schema_relations \<Longrightarrow>
   with_relation d ''users'' ''password'' =
     Inl (Error (''There is not enough information to infer relation ''
            @ dquote @ ''users.password'' @ dquote))"
  by (simp add: with_relation_def normalizeRelation_def schema_relations_def bare_def
      first_row_def Let_def)

lemma with_relation_sessions_user:
  "relations d = schema_relations \<Longrightarrow>
   with_relation d ''sessions'' ''user'' =
     Inl (Error (''There is not enough information to infer relation ''
            @ dquote @ ''sessions.user'' @ dquote))"
  by (simp add: with_relation_def normalizeRelation_def schema_relations_def bare_def
      first_row_def Let_def)


lemma join_session_user:
  "join_on [sessions_column ''userId'' s] [users_column ''id'' u]
     = (user_id u = session_userId s)"
  by (auto simp: join_on_def sql_eq_def sessions_column_def users_column_def)

lemma join_user_password:
  "join_on [users_column ''id'' u] [passwords_column ''userId'' p]
     = (password_userId p = user_id u)"
  by (auto simp: join_on_def sql_eq_def passwords_column_def users_column_def)

section \<open>Credential check\<close>

text \<open>
  On every handle built with the schema, whatever the selector, the password and the
  rows, \<open>verifyUserPassword\<close> throws the error of the query builder.
\<close>

lemma verifyUserPassword_schema:
  "relations d = schema_relations \<Longrightarrow>
   verifyUserPassword e w pw d =
     Inl (Error (''There is not enough information to infer relation ''
            @ dquote @ ''users.password'' @ dquote))"
  by (simp add: verifyUserPassword_def with_relation_users_password)

text \<open>
  On a handle whose schema joins \<open>users.id\<close> to \<open>passwords.userId\<close>, the function returns
  the id of the user that the selector finds exactly when a password row of that user
  exists and the first such row verifies the plaintext; otherwise it returns null.
\<close>

lemma verifyUserPassword_configured:
  assumes "with_relation d ''users'' ''password'' = Inr ([''id''], [''userId''])"
  shows "verifyUserPassword e w pw d =
     (case findFirst_users w d of
        None \<Rightarrow> Inr None
      | Some u \<Rightarrow>
          (case find (\<lambda>p. password_userId p = user_id u) (passwords d) of
             None \<Rightarrow> Inr None
           | Some p \<Rightarrow> if bcrypt_compare e pw (password_hash p) then Inr (Some (user_id u))
                        else Inr None))"
  using assms
  by (simp add: verifyUserPassword_def password_of_def join_user_password
      split: option.splits)

text \<open>
  C3 (the behaviour of the code). On the concrete store, where \<open>alice\<close> has a password row
  whose hash verifies \<open>alicepw\<close>, \<open>verifyUserPassword({username: 'alice'}, 'alicepw')\<close>
  neither returns her id nor returns null: it throws, because the relation
  \<open>users.password\<close> of the schema cannot be inferred. So does the call with a wrong
  password.
\<close>

theorem verifyUserPassword_throws:
  "bcrypt_compare ex_ext ''alicepw'' (password_hash (passwords ex_db ! 0)) \<and>
   password_userId (passwords ex_db ! 0) = user_id alice \<and>
   verifyUserPassword ex_ext (Some (\<lambda>u. user_username u = ''alice'')) ''alicepw'' ex_db =
     Inl (Error (''There is not enough information to infer relation ''
            @ dquote @ ''users.password'' @ dquote)) \<and>
   verifyUserPassword ex_ext (Some (\<lambda>u. user_username u = ''alice'')) ''wrong'' ex_db =
     Inl (Error (''There is not enough information to infer relation ''
            @ dquote @ ''users.password'' @ dquote))"
  by (simp add: verifyUserPassword_def with_relation_users_password ex_defs)

section \<open>Session resolution\<close>

lemma getUserId_unfold:
  assumes "map_of (getSession e (request_cookie request)) sessionKey = Some sid" and "sid \<noteq> []"
  shows "fst (getUserId e request d) =
     (case live_session_user e sid d of
        Inl err \<Rightarrow> Inl err
      | Inr None \<Rightarrow>
          Inl (ThrownResponse
            (redirect ''/'' None
               [(''set-cookie'', destroySession e (getSession e (request_cookie request)))]))
      | Inr (Some u) \<Rightarrow> Inr (Some (user_id u)))"
  using assms
  by (simp add: getUserId_def truthy_def Let_def split: sum.splits option.splits)

lemma before_second: "(column_of_date t < sec) = (t < date_of_column sec)"
proof -
  define q where "q = t div 1000"
  define r where "r = t mod 1000"
  have m: "t = q * 1000 + r" and b: "0 \<le> r" "r < 1000"
    unfolding q_def r_def by simp_all
  have "(q < sec) = (q * 1000 + r < sec * 1000)"
    using b by linarith
  then show ?thesis
    using m unfolding q_def column_of_date_def date_of_column_def by simp
qed




text \<open>
  On a handle whose schema joins \<open>sessions.userId\<close> to \<open>users.id\<close>, and in a store where
  the owner of the session exists, the session resolves to its owner strictly while
  \<open>now < expirationDate\<close> and to the redirect from then on.
\<close>

lemma getUserId_configured:
  assumes "with_relation d ''sessions'' ''user'' = Inr ([''userId''], [''id''])"
    and "map_of (getSession e (request_cookie request)) sessionKey = Some sid"
    and "sid \<noteq> []"
    and "s \<in> set (sessions d)" and "session_id s = sid"
    and "distinct (map session_id (sessions d))"
    and "session_userId s \<in> set (map user_id (users d))"
  shows "fst (getUserId e request d) =
     (if now e < date_of_column (session_expirationDate s) then Inr (Some (session_userId s))
      else Inl (ThrownResponse
             (redirect ''/'' None
                [(''set-cookie'', destroySession e (getSession e (request_cookie request)))])))"
proof -
  have f: "find (\<lambda>x. session_id x = sid \<and> column_of_date (now e) < session_expirationDate x)
             (sessions d) =
      (if now e < date_of_column (session_expirationDate s) then Some s else None)"
    using find_by_key [of session_id "sessions d" s
        "\<lambda>x. column_of_date (now e) < session_expirationDate x"] assms(4,5,6)
    by (simp add: before_second)
  obtain u where u: "find (\<lambda>u. user_id u = session_userId s) (users d) = Some u"
      "user_id u = session_userId s"
    using find_key_exists [OF assms(7)] by blast
  show ?thesis
    using getUserId_unfold [OF assms(2,3), of d] assms(1) f u
    by (simp add: live_session_user_def join_session_user)
qed

text \<open>
  C10 (the behaviour of the code). The cookie carries the id \<open>s2\<close>, which resolves to no
  session with an expiration date strictly in the future. \<open>getUserId\<close> does not return
  null and does not delete the row, but what it throws is not the redirect to \<open>/\<close> with
  the cookie-destroying header: it is the error of the query builder, because the
  relation \<open>sessions.user\<close> of the schema cannot be inferred.
\<close>

theorem getUserId_throws_error:
  "truthy (map_of (getSession ex_ext (Some ''s2'')) sessionKey) \<and>
   getUserId ex_ext \<lparr>request_cookie = Some ''s2'', request_url = ''/''\<rparr> ex_db =
     (Inl (Error (''There is not enough information to infer relation ''
             @ dquote @ ''sessions.user'' @ dquote)), ex_db) \<and>
   getUserId ex_ext \<lparr>request_cookie = Some ''s2'', request_url = ''/''\<rparr> ex_db \<noteq>
     (Inl (ThrownResponse (Redirect ''/'' 302 [(''set-cookie'', ''en_session=; Max-Age=0'')])),
      ex_db)"
proof -
  have "relations ex_db = schema_relations" by (simp add: ex_db_def)
  from with_relation_sessions_user [OF this] show ?thesis
    by (simp add: getUserId_def live_session_user_def truthy_def sessionKey_def
        Let_def ex_ext_def)
qed

text \<open>
  What holds of \<open>getUserId\<close> on every handle: it returns null exactly when the cookie
  carries no session id (none, or the empty string, which the code's test takes for
  none), and it leaves the store as it was.
\<close>

lemma getUserId_null_and_frame:
  "(fst (getUserId e request d) = Inr None \<longleftrightarrow>
      \<not> truthy (map_of (getSession e (request_cookie request)) sessionKey)) \<and>
   snd (getUserId e request d) = d"
proof (cases "truthy (map_of (getSession e (request_cookie request)) sessionKey)")
  case False
  then show ?thesis by (simp add: getUserId_def Let_def)
next
  case True
  then show ?thesis
    by (cases "live_session_user e (the (map_of (getSession e (request_cookie request)) sessionKey)) d")
      (simp_all add: getUserId_def Let_def split: option.splits)
qed

section \<open>Signup\<close>

lemma insert_users_Inr:
  "insert_users e em un nm d = Inr (rows, d1) \<Longrightarrow>
     rows = [\<lparr>user_id = createId e ''user'', user_email = em, user_username = un,
               user_name = nm,
               user_createdAt = column_of_date (default_Date e ''user.created_at''),
               user_updatedAt = column_of_date (default_Date e ''user.updated_at'')\<rparr>] \<and>
     d1 = d\<lparr>users := users d @ rows\<rparr>"
  by (auto simp: insert_users_def Let_def split: if_splits)

lemma insert_sessions_Inr:
  "insert_sessions e ex uid d = Inr (rows, d1) \<Longrightarrow>
     rows = [\<lparr>session_id = createId e ''session'', session_expirationDate = column_of_date ex,
               session_createdAt = column_of_date (default_Date e ''session.created_at''),
               session_updatedAt = column_of_date (default_Date e ''session.updated_at''),
               session_userId = uid\<rparr>] \<and>
     d1 = d\<lparr>sessions := sessions d @ rows\<rparr>"
  by (auto simp: insert_sessions_def Let_def split: if_splits)

lemma find_SomeD: "find P xs = Some x \<Longrightarrow> x \<in> set xs \<and> P x"
  by (auto simp: find_Some_iff)

lemma signup_tx_Inr:
  assumes "signup_tx e em un nm h d = Inr (s, d')"
  shows "\<exists>u rl. u = \<lparr>user_id = createId e ''user'', user_email = toLowerCase e em,
                    user_username = toLowerCase e un, user_name = nm,
                    user_createdAt = column_of_date (default_Date e ''user.created_at''),
                    user_updatedAt = column_of_date (default_Date e ''user.updated_at'')\<rparr> \<and>
           find (\<lambda>r. role_name r = ''user'') (roles d) = Some rl \<and>
           s = \<lparr>session_id = createId e ''session'',
                 session_expirationDate = column_of_date (getSessionExpirationDate e),
                 session_createdAt = column_of_date (default_Date e ''session.created_at''),
                 session_updatedAt = column_of_date (default_Date e ''session.updated_at''),
                 session_userId = user_id u\<rparr> \<and>
           d' = d\<lparr>users := users d @ [u],
                   passwords := passwords d @ [\<lparr>password_hash = h, password_userId = user_id u\<rparr>],
                   rolesToUsers := rolesToUsers d @
                     [\<lparr>role_user_roleId = role_id rl, role_user_userId = user_id u\<rparr>],
                   sessions := sessions d @ [s]\<rparr>"
proof -
  from assms obtain urows tx1 where
    i: "insert_users e (toLowerCase e em) (toLowerCase e un) nm d = Inr (urows, tx1)"
    by (auto simp: signup_tx_def split: sum.splits)
  note u = insert_users_Inr [OF i]
  from assms i obtain rl where r: "find (\<lambda>r. role_name r = ''user'') (roles tx1) = Some rl"
    by (auto simp: signup_tx_def invariant_def split: sum.splits option.splits)
  from assms i r u obtain srows tx4 where
    ss: "insert_sessions e (getSessionExpirationDate e) (createId e ''user'')
          (tx1\<lparr>passwords := passwords tx1 @ [\<lparr>password_hash = h, password_userId = createId e ''user''\<rparr>],
               rolesToUsers := rolesToUsers tx1 @
                  [\<lparr>role_user_roleId = role_id rl, role_user_userId = createId e ''user''\<rparr>]\<rparr>) = Inr (srows, tx4)"
    by (auto simp: signup_tx_def invariant_def first_row_def insert_passwords_def
        insert_rolesToUsers_def split: sum.splits)
  note s = insert_sessions_Inr [OF ss]
  from assms i r u ss s have "s = hd srows" "d' = tx4"
    by (auto simp: signup_tx_def invariant_def first_row_def insert_passwords_def
        insert_rolesToUsers_def split: sum.splits)
  with u s r show ?thesis by simp
qed

lemma floor_second:
  "date_of_column (column_of_date ms) \<le> ms \<and> ms - 1000 < date_of_column (column_of_date ms)"
proof -
  define q where "q = ms div 1000"
  define r where "r = ms mod 1000"
  have m: "ms = q * 1000 + r" and b: "0 \<le> r" "r < 1000"
    unfolding q_def r_def by simp_all
  have "q * 1000 \<le> ms \<and> ms - 1000 < q * 1000"
    using m b by linarith
  then show ?thesis
    unfolding q_def date_of_column_def column_of_date_def .
qed

text \<open>
  C5 (the claim as stated fails). With the clock at 1999 when the expiration date is
  computed and at 2000 when the defaults of the inserted row read it, \<open>signup\<close> returns a
  session that expires at the second 2592001 and was created at the second 2: its
  expiration date is neither its creation instant plus 30 days nor the instant of the
  computation plus 30 days.
\<close>

theorem signup_expiration_counterexample:
  "fst (signup ex_ext_late ''A@B.com'' ''Carol'' None ''secret123'' ex_db) =
     Inr \<lparr>session_id = ''new-session'', session_expirationDate = 2592001,
           session_createdAt = 2, session_updatedAt = 2, session_userId = ''new-user''\<rparr> \<and>
   date_of_column 2592001 \<noteq> date_of_column 2 + 30 * 24 * 60 * 60 * 1000 \<and>
   date_of_column 2592001 \<noteq> now ex_ext_late + 30 * 24 * 60 * 60 * 1000"
  by (simp add: signup_def signup_tx_def transaction_def invariant_def first_row_def
      insert_users_def insert_passwords_def insert_rolesToUsers_def insert_sessions_def
      getPasswordHash_def getSessionExpirationDate_def SESSION_EXPIRATION_TIME_def
      column_of_date_def date_of_column_def ascii_lower ex_ext_late_def Let_def ex_defs)

text \<open>
  C5 (amended). When \<open>signup\<close> succeeds (it returns a session), and \<open>bcrypt.compare\<close>
  accepts a password against the hash \<open>bcrypt.hash\<close> made of it, the store has gained
  exactly: one user row whose email and username are the lowercase forms of the inputs
  (and whose name is the input's); one password row of that user whose hash verifies
  against the given password; one role assignment that links the user to a role named
  \<open>user\<close>; and the returned session, owned by the user. The expiration date of the session
  is the instant at which it is computed plus 30 days, rounded down to the whole second
  that the column holds: it is at most that instant plus 30 days and less than one second
  before it. The creation instant of the session is a clock read of its own, made by the
  default of the column.
\<close>

theorem signup_postcondition:
  assumes "signup e em un nm pw d = (Inr s, d')"
    and "bcrypt_compare e pw (bcrypt_hash e pw)"
  shows "\<exists>u p rl.
      users d' = users d @ [u] \<and>
      user_email u = toLowerCase e em \<and> user_username u = toLowerCase e un \<and>
      user_name u = nm \<and>
      passwords d' = passwords d @ [p] \<and>
      password_userId p = user_id u \<and> bcrypt_compare e pw (password_hash p) \<and>
      rl \<in> set (roles d') \<and> role_name rl = ''user'' \<and>
      rolesToUsers d' = rolesToUsers d @
        [\<lparr>role_user_roleId = role_id rl, role_user_userId = user_id u\<rparr>] \<and>
      sessions d' = sessions d @ [s] \<and>
      session_userId s = user_id u \<and>
      session_expirationDate s = column_of_date (now e + 30 * 24 * 60 * 60 * 1000) \<and>
      date_of_column (session_expirationDate s) \<le> now e + 30 * 24 * 60 * 60 * 1000 \<and>
      now e + 30 * 24 * 60 * 60 * 1000 - 1000 < date_of_column (session_expirationDate s) \<and>
      session_createdAt s = column_of_date (default_Date e ''session.created_at'')"
proof -
  from assms(1) have "signup_tx e em un nm (getPasswordHash e pw) d = Inr (s, d')"
    by (auto simp: signup_def transaction_def Let_def split: sum.splits)
  from signup_tx_Inr [OF this] obtain u rl where
    *: "u = \<lparr>user_id = createId e ''user'', user_email = toLowerCase e em,
                    user_username = toLowerCase e un, user_name = nm,
                    user_createdAt = column_of_date (default_Date e ''user.created_at''),
                    user_updatedAt = column_of_date (default_Date e ''user.updated_at'')\<rparr>"
           "find (\<lambda>r. role_name r = ''user'') (roles d) = Some rl"
           "s = \<lparr>session_id = createId e ''session'',
                 session_expirationDate = column_of_date (getSessionExpirationDate e),
                 session_createdAt = column_of_date (default_Date e ''session.created_at''),
                 session_updatedAt = column_of_date (default_Date e ''session.updated_at''),
                 session_userId = user_id u\<rparr>"
           "d' = d\<lparr>users := users d @ [u],
                   passwords := passwords d @ [\<lparr>password_hash = getPasswordHash e pw, password_userId = user_id u\<rparr>],
                   rolesToUsers := rolesToUsers d @
                     [\<lparr>role_user_roleId = role_id rl, role_user_userId = user_id u\<rparr>],
                   sessions := sessions d @ [s]\<rparr>"
    by blast
  from *(2) have rl: "rl \<in> set (roles d)" "role_name rl = ''user''"
    using find_SomeD by fastforce+
  have ex: "session_expirationDate s = column_of_date (now e + 30 * 24 * 60 * 60 * 1000)"
    using *(3) by (simp add: getSessionExpirationDate_def SESSION_EXPIRATION_TIME_def)
  note fl = floor_second [of "now e + 30 * 24 * 60 * 60 * 1000"]
  show ?thesis
    apply (rule exI [of _ u])
    apply (rule exI [of _ "\<lparr>password_hash = getPasswordHash e pw, password_userId = user_id u\<rparr>"])
    apply (rule exI [of _ rl])
    using * rl assms(2) ex fl
    by (simp add: getPasswordHash_def)
qed

theorem signup_postcondition_witness:
  "signup ex_ext ''A@B.com'' ''Alice2'' None ''secret123'' ex_db =
     (Inr \<lparr>session_id = ''new-session'', session_expirationDate = 2593000,
           session_createdAt = 1000, session_updatedAt = 1000, session_userId = ''new-user''\<rparr>,
      snd (signup ex_ext ''A@B.com'' ''Alice2'' None ''secret123'' ex_db)) \<and>
   bcrypt_compare ex_ext ''secret123'' (bcrypt_hash ex_ext ''secret123'') \<and>
   (\<exists>u. users (snd (signup ex_ext ''A@B.com'' ''Alice2'' None ''secret123'' ex_db)) = users ex_db @ [u] \<and>
        user_email u = ''a@b.com'' \<and> user_username u = ''alice2'') \<and>
   column_of_date (now ex_ext + 30 * 24 * 60 * 60 * 1000) = 2593000"
proof -
  have r: "signup ex_ext ''A@B.com'' ''Alice2'' None ''secret123'' ex_db =
     (Inr \<lparr>session_id = ''new-session'', session_expirationDate = 2593000,
           session_createdAt = 1000, session_updatedAt = 1000, session_userId = ''new-user''\<rparr>,
      snd (signup ex_ext ''A@B.com'' ''Alice2'' None ''secret123'' ex_db))"
    by (simp add: signup_def signup_tx_def transaction_def invariant_def first_row_def
        insert_users_def insert_passwords_def insert_rolesToUsers_def insert_sessions_def
        getPasswordHash_def getSessionExpirationDate_def SESSION_EXPIRATION_TIME_def
        column_of_date_def ascii_lower Let_def ex_defs)
  have c: "bcrypt_compare ex_ext ''secret123'' (bcrypt_hash ex_ext ''secret123'')"
    by (simp add: ex_defs)
  have l: "toLowerCase ex_ext ''A@B.com'' = ''a@b.com''" "toLowerCase ex_ext ''Alice2'' = ''alice2''"
    by (simp_all add: ex_ext_def ascii_lower)
  have n: "column_of_date (now ex_ext + 30 * 24 * 60 * 60 * 1000) = 2593000"
    by (simp add: column_of_date_def ex_ext_def)
  from signup_postcondition [OF r c] l r c n show ?thesis by auto
qed

text \<open>
  C6. \<open>signup\<close> is all-or-nothing: whenever it fails, with whatever error, the store
  after the call is the store before it, so no user, password, role-assignment or session
  row persists. In particular, when the user insert succeeds and no role is named
  \<open>user\<close>, the call fails with \<open>Failed to find user role\<close> and the inserted user row is
  rolled back.
\<close>

theorem signup_all_or_nothing:
  "(fst (signup e em un nm pw d) = Inl err \<longrightarrow> snd (signup e em un nm pw d) = d) \<and>
   (insert_users e (toLowerCase e em) (toLowerCase e un) nm d = Inr (rows, d1) \<and>
    ''user'' \<notin> set (map role_name (roles d)) \<longrightarrow>
      signup e em un nm pw d = (Inl (InvariantError ''Failed to find user role''), d))"
proof (intro conjI impI)
  assume "fst (signup e em un nm pw d) = Inl err"
  then show "snd (signup e em un nm pw d) = d"
    by (auto simp: signup_def transaction_def Let_def split: sum.splits)
next
  assume a: "insert_users e (toLowerCase e em) (toLowerCase e un) nm d = Inr (rows, d1) \<and>
    ''user'' \<notin> set (map role_name (roles d))"
  then have "roles d1 = roles d"
    using insert_users_Inr [of e "toLowerCase e em" "toLowerCase e un" nm d rows d1] by simp
  with a have "find (\<lambda>r. role_name r = ''user'') (roles d1) = None"
    by (force simp: find_None_iff image_iff)
  with a show "signup e em un nm pw d = (Inl (InvariantError ''Failed to find user role''), d)"
    by (simp add: signup_def signup_tx_def transaction_def invariant_def Let_def)
qed

theorem signup_all_or_nothing_witness:
  "''user'' \<notin> set (map role_name (roles (ex_db\<lparr>roles := []\<rparr>))) \<and>
   (\<exists>rows d1. insert_users ex_ext (toLowerCase ex_ext ''A@B.com'') (toLowerCase ex_ext ''Carol'') None
        (ex_db\<lparr>roles := []\<rparr>) = Inr (rows, d1)) \<and>
   signup ex_ext ''A@B.com'' ''Carol'' None ''secret123'' (ex_db\<lparr>roles := []\<rparr>) =
     (Inl (InvariantError ''Failed to find user role''), ex_db\<lparr>roles := []\<rparr>) \<and>
   fst (signup ex_ext ''A@B.com'' ''Carol'' None ''secret123'' (ex_db\<lparr>roles := []\<rparr>)) =
      Inl (InvariantError ''Failed to find user role'') \<and>
   snd (signup ex_ext ''A@B.com'' ''Carol'' None ''secret123'' (ex_db\<lparr>roles := []\<rparr>)) =
      ex_db\<lparr>roles := []\<rparr>"
proof -
  let ?d = "ex_db\<lparr>roles := []\<rparr>"
  have l: "toLowerCase ex_ext ''A@B.com'' = ''a@b.com''" "toLowerCase ex_ext ''Carol'' = ''carol''"
    by (simp_all add: ex_ext_def ascii_lower)
  obtain rows d1 where i: "insert_users ex_ext (toLowerCase ex_ext ''A@B.com'') (toLowerCase ex_ext ''Carol'') None ?d = Inr (rows, d1)"
    by (simp add: ascii_lower insert_users_def Let_def ex_defs)
  have n: "''user'' \<notin> set (map role_name (roles ?d))" by simp
  from signup_all_or_nothing [of ex_ext "''A@B.com''" "''Carol''" None "''secret123''" ?d
      "InvariantError ''Failed to find user role''" rows d1] i n
  show ?thesis by auto
qed

section \<open>Signup through a connection\<close>

text \<open>
  C2 (the claim as stated fails). With an avatar URL supplied and a download that fails,
  \<open>signupWithConnection\<close> does not complete: what the download throws comes out of the
  call, and the store is as before, with no user, role assignment, connection or session
  added.
\<close>

theorem signupWithConnection_download_failure_counterexample:
  "signupWithConnection ex_ext ''Carol@Example.com'' ''Carol'' None ''77'' ''github''
       (Some ''https://example.com/avatar.png'') ex_db =
     (Inl (DownloadError ''https://example.com/avatar.png''), ex_db)"
  by (simp add: signupWithConnection_def signupWithConnection_tx_def store_avatar_def
      transaction_def invariant_def first_row_def truthy_def insert_users_def
      insert_rolesToUsers_def insert_connections_def ascii_lower
      Let_def ex_defs)

text \<open>
  C2 (amended). In \<open>signupWithConnection\<close>, when an avatar image URL is supplied (a
  non-empty string) and the avatar download fails, the signup does not complete: the call
  fails, no session is returned, and the transaction is rolled back, so that the store
  gains no User, Role assignment, Connection, Session or UserImage row.
\<close>

theorem signupWithConnection_download_failure_aborts:
  assumes "truthy imageUrl" and "downloadFile e (the imageUrl) = Inl err"
  shows "(\<exists>err'. fst (signupWithConnection e em un nm providerId providerName imageUrl d) = Inl err') \<and>
         snd (signupWithConnection e em un nm providerId providerName imageUrl d) = d"
proof -
  have "\<exists>err'. signupWithConnection_tx e em un nm providerId providerName imageUrl d = Inl err'"
    using assms
    by (simp add: signupWithConnection_tx_def store_avatar_def split: sum.splits prod.splits)
  then show ?thesis
    by (auto simp: signupWithConnection_def transaction_def)
qed

theorem signupWithConnection_download_failure_aborts_witness:
  "truthy (Some ''https://example.com/avatar.png'') \<and>
   downloadFile ex_ext (the (Some ''https://example.com/avatar.png'')) =
     Inl (DownloadError ''https://example.com/avatar.png'') \<and>
   (\<exists>err'. fst (signupWithConnection ex_ext ''Carol@Example.com'' ''Carol'' None ''77'' ''github''
       (Some ''https://example.com/avatar.png'') ex_db) = Inl err') \<and>
   snd (signupWithConnection ex_ext ''Carol@Example.com'' ''Carol'' None ''77'' ''github''
       (Some ''https://example.com/avatar.png'') ex_db) = ex_db"
proof -
  have t: "truthy (Some ''https://example.com/avatar.png'')"
    by (simp add: truthy_def)
  have f: "downloadFile ex_ext (the (Some ''https://example.com/avatar.png'')) =
     Inl (DownloadError ''https://example.com/avatar.png'')"
    by (simp add: ex_defs)
  from signupWithConnection_download_failure_aborts [OF t f] t f show ?thesis by blast
qed

section \<open>Logout\<close>

text \<open>
  C9. Whether the deletion of the session row succeeds or fails, \<open>logout\<close> ends with the
  same thrown value: the redirect to the safe form of the target, whose headers are
  \<open>combineHeaders\<close> of the cookie-destroying \<open>set-cookie\<close> header and the caller's. The
  failure of the delete is never what the call throws; it only leaves the store as it was.
\<close>

theorem logout_always_redirects:
  "fst (logout e fails request redirectTo responseInit d) =
     ThrownResponse
       (redirect (safeRedirect e (case redirectTo of None \<Rightarrow> ''/'' | Some t \<Rightarrow> t))
          (case responseInit of None \<Rightarrow> None | Some i \<Rightarrow> init_status i)
          (combineHeaders e
             [Some [(''set-cookie'', destroySession e (getSession e (request_cookie request)))],
              (case responseInit of None \<Rightarrow> None | Some i \<Rightarrow> init_headers i)])) \<and>
   fst (logout e True request redirectTo responseInit d) =
     fst (logout e False request redirectTo responseInit d) \<and>
   snd (logout e True request redirectTo responseInit d) = d"
  by (simp add: logout_def delete_sessions_by_id_def Let_def)

theorem logout_always_redirects_witness:
  "delete_sessions_by_id True ''s1'' ex_db = Inl StorageError \<and>
   logout ex_ext True \<lparr>request_cookie = Some ''s1'', request_url = ''/''\<rparr> None None ex_db =
     (ThrownResponse (Redirect ''/'' 302 [(''set-cookie'', ''en_session=; Max-Age=0'')]), ex_db)"
  using logout_always_redirects
      [of ex_ext True "\<lparr>request_cookie = Some ''s1'', request_url = ''/''\<rparr>" None None ex_db]
  by (simp add: delete_sessions_by_id_def redirect_def prod_eq_iff ex_ext_def)

section \<open>Change of email address\<close>

lemma update_users_email_Inr:
  "update_users_email target newEmail d = Inr (rows, d') \<Longrightarrow>
     rows = filter (\<lambda>u. user_id u = target) (users d') \<and>
     d' = d\<lparr>users := map (\<lambda>u. if user_id u = target then u\<lparr>user_email := newEmail\<rparr> else u)
                        (users d)\<rparr>"
  by (auto simp: update_users_email_def Let_def split: if_splits)

lemma first_row_filter: "first_row (filter P xs) = Some x \<Longrightarrow> P x"
proof -
  assume "first_row (filter P xs) = Some x"
  then have "x \<in> set (filter P xs)"
    by (cases "filter P xs") (auto simp: first_row_def)
  then show "P x" by simp
qed

lemma first_row_updated:
  assumes "find (\<lambda>u. user_id u = target) us = Some old"
  shows "first_row (filter (\<lambda>u. user_id u = target)
           (map (\<lambda>u. if user_id u = target then u\<lparr>user_email := newEmail\<rparr> else u) us)) \<noteq> None"
proof -
  from assms have "old \<in> set us" "user_id old = target"
    by (auto simp: find_Some_iff)
  then have "old\<lparr>user_email := newEmail\<rparr> \<in> set (filter (\<lambda>u. user_id u = target)
           (map (\<lambda>u. if user_id u = target then u\<lparr>user_email := newEmail\<rparr> else u) us))"
    by force
  then show ?thesis
    by (cases "filter (\<lambda>u. user_id u = target)
           (map (\<lambda>u. if user_id u = target then u\<lparr>user_email := newEmail\<rparr> else u) us)")
      (auto simp: first_row_def)
qed

text \<open>
  The steps of the handler after its two checks and the lookup of the pending address:
  either it stops before the update and leaves store and messages as they were, or it
  updates the row and appends the notice addressed to the address read before the update.
\<close>

lemma handleVerification_steps:
  assumes "handleVerification e request sub (d, out) = (r, (d', out'))"
  shows "(d' = d \<and> out' = out \<and> (\<forall>a b c m h. r \<noteq> Inr (RedirectWithToast a b c m h))) \<or>
         (requireRecentVerification e request = None \<and> submission_status sub = ''success'' \<and>
          (\<exists>old. find (\<lambda>u. user_id u = submission_target sub) (users d) = Some old \<and>
                 out' = out @ [\<lparr>email_to = user_email old,
                                 email_subject = ''Epic Stack email changed'',
                                 email_noticeUserId = submission_target sub\<rparr>]))"
proof (cases "requireRecentVerification e request")
  case (Some t)
  with assms show ?thesis by (auto simp: handleVerification_def)
next
  case None
  note guard = None
  show ?thesis
  proof (cases "submission_status sub = ''success''")
    case False
    with guard assms show ?thesis by (auto simp: handleVerification_def)
  next
    case True
    note ok = True
    let ?new = "map_of (verify_getSession e (request_cookie request)) (newEmailAddressSessionKey e)"
    show ?thesis
    proof (cases "truthy ?new")
      case False
      with guard ok assms show ?thesis by (auto simp: handleVerification_def Let_def)
    next
      case True
      note tr = True
      show ?thesis
      proof (cases "find (\<lambda>u. user_id u = submission_target sub) (users d)")
        case None
        with guard ok tr assms show ?thesis
          by (auto simp: handleVerification_def invariant_def Let_def)
      next
        case (Some old)
        note pre = Some
        show ?thesis
        proof (cases "update_users_email (submission_target sub) (the ?new) d")
          case (Inl err)
          with guard ok tr pre assms show ?thesis
            by (auto simp: handleVerification_def invariant_def Let_def)
        next
          case (Inr res)
          obtain rows d1 where res: "res = (rows, d1)" by (cases res)
          note up = update_users_email_Inr [OF Inr [unfolded res]]
          from first_row_updated [OF pre] up obtain u where u: "first_row rows = Some u"
            by auto
          with up have uid: "user_id u = submission_target sub"
            using first_row_filter [of "\<lambda>u. user_id u = submission_target sub" "users d1" u]
            by simp
          from guard ok tr pre Inr res u uid assms show ?thesis
            by (auto simp: handleVerification_def invariant_def Let_def)
        qed
      qed
    qed
  qed
qed

text \<open>
  C8. Whatever \<open>handleVerification\<close> returns or throws: if it changed the store or sent a
  message, then the guard \<open>requireRecentVerification\<close> had let the request through (and
  the submission was successful). Whenever it changes the store, and whenever it answers
  with the success redirect, it sends the change notice, and exactly that one message,
  addressed to the email address that the user row had before the update (the old
  address), not to the new address read from the verification cookie session. It never
  sends anything else.
\<close>

theorem handleVerification_guard_and_notice:
  assumes "handleVerification e request sub (d, out) = (r, (d', out'))"
  shows "(d' \<noteq> d \<or> out' \<noteq> out \<longrightarrow>
            requireRecentVerification e request = None \<and> submission_status sub = ''success'') \<and>
         (d' \<noteq> d \<or> (\<exists>a b c m h. r = Inr (RedirectWithToast a b c m h)) \<longrightarrow>
            (\<exists>old. find (\<lambda>u. user_id u = submission_target sub) (users d) = Some old \<and>
                   out' = out @ [\<lparr>email_to = user_email old,
                                   email_subject = ''Epic Stack email changed'',
                                   email_noticeUserId = submission_target sub\<rparr>])) \<and>
         (out' = out \<or>
          (\<exists>old. find (\<lambda>u. user_id u = submission_target sub) (users d) = Some old \<and>
                 out' = out @ [\<lparr>email_to = user_email old,
                                 email_subject = ''Epic Stack email changed'',
                                 email_noticeUserId = submission_target sub\<rparr>]))"
  using handleVerification_steps [OF assms] by blast

theorem handleVerification_guard_and_notice_witness:
  "handleVerification ex_ext \<lparr>request_cookie = Some ''new@example.com'', request_url = ''/''\<rparr>
       \<lparr>submission_status = ''success'', submission_target = ''u1''\<rparr> (ex_db, []) =
     (Inr (RedirectWithToast ''/settings/profile'' ''Email Changed'' ''success''
             ''Your email has been changed to new@example.com''
             [(''set-cookie'', ''en_verification=; Max-Age=0'')]),
      (ex_db\<lparr>users := [alice\<lparr>user_email := ''new@example.com''\<rparr>, bob]\<rparr>,
       [\<lparr>email_to = ''alice@example.com'', email_subject = ''Epic Stack email changed'',
         email_noticeUserId = ''u1''\<rparr>])) \<and>
   requireRecentVerification ex_ext \<lparr>request_cookie = Some ''new@example.com'', request_url = ''/''\<rparr>
     = None \<and>
   find (\<lambda>u. user_id u = ''u1'') (users ex_db) = Some alice"
proof -
  have h: "handleVerification ex_ext \<lparr>request_cookie = Some ''new@example.com'', request_url = ''/''\<rparr>
       \<lparr>submission_status = ''success'', submission_target = ''u1''\<rparr> (ex_db, []) =
     (Inr (RedirectWithToast ''/settings/profile'' ''Email Changed'' ''success''
             ''Your email has been changed to new@example.com''
             [(''set-cookie'', ''en_verification=; Max-Age=0'')]),
      (ex_db\<lparr>users := [alice\<lparr>user_email := ''new@example.com''\<rparr>, bob]\<rparr>,
       [\<lparr>email_to = ''alice@example.com'', email_subject = ''Epic Stack email changed'',
         email_noticeUserId = ''u1''\<rparr>]))"
    by (simp add: handleVerification_def update_users_email_def invariant_def first_row_def
        truthy_def Let_def ex_defs)
  from handleVerification_guard_and_notice [OF h] h show ?thesis
    by (auto simp: ex_defs)
qed

section \<open>Deleting a user\<close>




end
